theory Spec2Isabelle
  imports Complex_Main
begin

section \<open>Store model for the notebook kernels\<close>

text \<open>
  The notebooks pass numpy arrays by reference and mutate them in place, so the kernels are
  modelled over an explicit store: a reference is a natural number, the store maps every
  reference to the current contents of a one-dimensional array, and \<open>next_ref\<close> is the
  first reference that has not been handed out yet. Python floats and float64 array
  elements are idealised as real numbers: rounding, overflow and the special values inf
  and nan are outside the model, and agreement "within floating-point tolerance" is stated
  as agreement of the real-valued results. The one exception is \<open>histo_unrolled\<close>, whose
  result goes through a floor: there the rounding of every arithmetic step is explicit.
\<close>

type_synonym ref = nat

record heap =
  arrays :: "ref \<Rightarrow> real list"
  next_ref :: ref

datatype error = ZeroDivisionError | IndexError | ValueError

text \<open>
  A call either returns a value or raises; in both cases the store it leaves behind is
  part of the outcome, because an exception does not undo earlier in-place writes.
\<close>

datatype 'a result = Return 'a heap | Raise error heap

fun heap_of :: "'a result \<Rightarrow> heap" where
  "heap_of (Return v h) = h"
| "heap_of (Raise e h) = h"

fun bind :: "'a result \<Rightarrow> ('a \<Rightarrow> heap \<Rightarrow> 'b result) \<Rightarrow> 'b result" where
  "bind (Return v h) f = f v h"
| "bind (Raise e h) f = Raise e h"

text \<open>\<open>for x in xs: body\<close>; the loop stops at the first iteration that raises.\<close>

fun for_each :: "'i list \<Rightarrow> ('i \<Rightarrow> heap \<Rightarrow> unit result) \<Rightarrow> heap \<Rightarrow> unit result" where
  "for_each [] body h = Return () h"
| "for_each (i # is) body h = bind (body i h) (\<lambda>_. for_each is body)"

definition store :: "ref \<Rightarrow> real list \<Rightarrow> heap \<Rightarrow> heap" where
  "store p v h = h\<lparr>arrays := (arrays h)(p := v)\<rparr>"

text \<open>A freshly created array gets the next unused reference.\<close>

definition alloc :: "real list \<Rightarrow> heap \<Rightarrow> ref \<times> heap" where
  "alloc v h = (next_ref h, h\<lparr>arrays := (arrays h)(next_ref h := v), next_ref := Suc (next_ref h)\<rparr>)"

text \<open>A store holding the given arrays at references \<open>0, 1, ...\<close>, used to run the model.\<close>

definition heap_with :: "real list list \<Rightarrow> heap" where
  "heap_with xs = \<lparr>arrays = (\<lambda>p. if p < length xs then xs ! p else []), next_ref = length xs\<rparr>"

subsection \<open>Array primitives\<close>

text \<open>\<open>a[i] = v\<close> for an index that is in range.\<close>

definition setitem :: "ref \<Rightarrow> nat \<Rightarrow> real \<Rightarrow> heap \<Rightarrow> heap" where
  "setitem p i v h = store p ((arrays h p)[i := v]) h"

text \<open>
  numpy's in-place \<open>a += b\<close> for one-dimensional arrays: \<open>b\<close> must have the length of
  \<open>a\<close> or length one (it is then broadcast); any other shape raises ValueError and
  leaves \<open>a\<close> as it was.
\<close>

definition iadd :: "ref \<Rightarrow> real list \<Rightarrow> heap \<Rightarrow> unit result" where
  "iadd p ys h =
     (let xs = arrays h p
      in if length ys = length xs then Return () (store p (map2 (+) xs ys) h)
         else if length ys = 1 then Return () (store p (map (\<lambda>x. x + hd ys) xs) h)
         else Raise ValueError h)"

text \<open>In-place operations with a scalar operand, \<open>a += c\<close> and \<open>a *= c\<close>.\<close>

definition iadd_scalar :: "ref \<Rightarrow> real \<Rightarrow> heap \<Rightarrow> unit result" where
  "iadd_scalar p c h = Return () (store p (map (\<lambda>x. x + c) (arrays h p)) h)"

definition imul_scalar :: "ref \<Rightarrow> real \<Rightarrow> heap \<Rightarrow> unit result" where
  "imul_scalar p c h = Return () (store p (map (\<lambda>x. x * c) (arrays h p)) h)"

text \<open>
  A binary operation on two one-dimensional arrays, which yields a new array: equal
  lengths combine element by element, an operand of length one is broadcast, anything
  else raises ValueError.
\<close>

definition broadcast2 :: "(real \<Rightarrow> real \<Rightarrow> real) \<Rightarrow> real list \<Rightarrow> real list \<Rightarrow> error + real list" where
  "broadcast2 f xs ys =
     (if length xs = length ys then Inr (map2 f xs ys)
      else if length ys = 1 then Inr (map (\<lambda>x. f x (hd ys)) xs)
      else if length xs = 1 then Inr (map (\<lambda>y. f (hd xs) y) ys)
      else Inl ValueError)"

definition np_sin :: "real list \<Rightarrow> real list" where
  "np_sin xs = map sin xs"

definition np_exp :: "real list \<Rightarrow> real list" where
  "np_exp xs = map exp xs"

definition np_sqrt :: "real list \<Rightarrow> real list" where
  "np_sqrt xs = map sqrt xs"

definition np_abs :: "real list \<Rightarrow> real list" where
  "np_abs xs = map abs xs"

section \<open>Notebook 02: introductory kernels\<close>

subsection \<open>Averaging\<close>

text \<open>
  \<^verbatim>\<open>
  def average_unrolled(arr):
      total = 0.0
      for elem in arr:
          total += elem
      total /= len(arr)
      return total
  \<close>
  For an empty array \<open>total\<close> is still the Python float \<open>0.0\<close> and the division by
  \<open>len(arr) = 0\<close> raises.
\<close>

definition average_unrolled :: "ref \<Rightarrow> heap \<Rightarrow> real result" where
  "average_unrolled arr h =
     (let total = foldl (\<lambda>total elem. total + elem) 0 (arrays h arr);
          n = length (arrays h arr)
      in if n = 0 then Raise ZeroDivisionError h else Return (total / real n) h)"

subsection \<open>The global-variable example\<close>

text \<open>
  \<^verbatim>\<open>
  secure_pass = '1234'

  def get_access(input_pass):
      if secure_pass == input_pass:
          return 'Access Granted!'
      else:
          return 'Access Denied!'
  \<close>
  The module namespace is a record; \<open>get_access\<close> reads the global at call time, and
  the notebook cell \<open>secure_pass = '5678'\<close> is an update of the record.
\<close>

record globals =
  secure_pass :: string

definition initial_globals :: globals where
  "initial_globals = \<lparr>secure_pass = ''1234''\<rparr>"

definition assign_secure_pass :: "string \<Rightarrow> globals \<Rightarrow> globals" where
  "assign_secure_pass v g = g\<lparr>secure_pass := v\<rparr>"

definition get_access :: "globals \<Rightarrow> string \<Rightarrow> string" where
  "get_access g input_pass =
     (if secure_pass g = input_pass then ''Access Granted!'' else ''Access Denied!'')"

subsection \<open>The energy kick, looped and vectorised\<close>

text \<open>
  \<^verbatim>\<open>
  def kick_unrolled(dt, dE, voltage, omega, phi, acc_kick):
      for i in range(len(dt)):
          dE[i] += voltage * math.sin(omega * dt[i] + phi) + acc_kick

  def kick_numpy(dt, dE, voltage, omega, phi, acc_kick):
      dE += voltage * np.sin(omega * dt + phi) + acc_kick
  \<close>
  In this notebook the four parameters are Python floats. \<open>dE[i]\<close> is read before the
  right-hand side is evaluated, so an index beyond the end of \<open>dE\<close> raises at once.
  Notebook 03 defines another function of the name \<open>kick_numpy\<close>; the one of this
  notebook is called \<open>kick_numpy_intro\<close> here.
\<close>

definition kick_unrolled_step :: "ref \<Rightarrow> ref \<Rightarrow> real \<Rightarrow> real \<Rightarrow> real \<Rightarrow> real \<Rightarrow> nat \<Rightarrow> heap \<Rightarrow> unit result" where
  "kick_unrolled_step dt dE voltage omega phi acc_kick i h =
     (if i < length (arrays h dE)
      then Return ()
             (setitem dE i
                (arrays h dE ! i + (voltage * sin (omega * (arrays h dt ! i) + phi) + acc_kick)) h)
      else Raise IndexError h)"

definition kick_unrolled :: "ref \<Rightarrow> ref \<Rightarrow> real \<Rightarrow> real \<Rightarrow> real \<Rightarrow> real \<Rightarrow> heap \<Rightarrow> unit result" where
  "kick_unrolled dt dE voltage omega phi acc_kick h =
     for_each [0..<length (arrays h dt)] (kick_unrolled_step dt dE voltage omega phi acc_kick) h"

definition kick_numpy_intro :: "ref \<Rightarrow> ref \<Rightarrow> real \<Rightarrow> real \<Rightarrow> real \<Rightarrow> real \<Rightarrow> heap \<Rightarrow> unit result" where
  "kick_numpy_intro dt dE voltage omega phi acc_kick h =
     iadd dE
       (map (\<lambda>x. x + acc_kick)
          (map (\<lambda>x. voltage * x)
             (np_sin (map (\<lambda>x. x + phi) (map (\<lambda>x. omega * x) (arrays h dt)))))) h"

subsection \<open>The standard normal density\<close>

text \<open>
  \<^verbatim>\<open>
  def standard_normal_pdf(x):
      return math.exp(-x**2/2.) / math.sqrt(2*math.pi)

  def numpy_pdf(x):
      return np.exp(-x**2/2.) / np.sqrt(2*math.pi)
  \<close>
  Python reads \<open>-x**2/2.\<close> as \<open>(-(x**2))/2.\<close>. In \<open>numpy_pdf\<close> every operator acts on
  the whole array and yields a new array.
\<close>

definition standard_normal_pdf :: "real \<Rightarrow> real" where
  "standard_normal_pdf x = exp (- (x ^ 2) / 2) / sqrt (2 * pi)"

definition numpy_pdf :: "real list \<Rightarrow> real list" where
  "numpy_pdf x =
     map (\<lambda>v. v / sqrt (2 * pi))
       (np_exp (map (\<lambda>v. v / 2) (map uminus (map (\<lambda>v. v ^ 2) x))))"

subsection \<open>The quadratic formula\<close>

text \<open>
  \<^verbatim>\<open>
  def unrolled_discriminant(A, B, C):
      X = np.empty_like(A)
      for i in range(len(A)):
          X[i] = (-B[i] + math.sqrt(abs(B[i]**2 - 4 * A[i] * C[i])) ) / (2*A[i])
      return X

  def numpy_discriminant(A, B, C):
      return (-B + np.sqrt(np.abs(B**2 - 4 * A * C)))/(2 * A)

  def discriminant(a, b, c):
      return (-b + math.sqrt(abs(b**2 - 4 * a * c))) / (2*a)
  \<close>
  \<open>discriminant\<close> works on Python floats, where dividing by zero raises. The array
  variants divide float64 values, where numpy stores inf or nan instead of raising; the
  real-valued model has no such values, its quotient by zero is HOL's, and the theorems
  about these variants assume nonzero denominators. \<open>np.empty_like\<close> returns
  uninitialised memory, modelled as zeros; every element is overwritten before \<open>X\<close> is
  returned.
\<close>

definition discriminant :: "real \<Rightarrow> real \<Rightarrow> real \<Rightarrow> error + real" where
  "discriminant a b c =
     (if 2 * a = 0 then Inl ZeroDivisionError
      else Inr ((- b + sqrt (abs (b ^ 2 - 4 * a * c))) / (2 * a)))"

definition unrolled_discriminant_step :: "ref \<Rightarrow> ref \<Rightarrow> ref \<Rightarrow> ref \<Rightarrow> nat \<Rightarrow> heap \<Rightarrow> unit result" where
  "unrolled_discriminant_step A B C X i h =
     (if i < length (arrays h B) \<and> i < length (arrays h C)
      then Return ()
             (setitem X i
                ((- (arrays h B ! i) +
                    sqrt (abs ((arrays h B ! i) ^ 2 - 4 * (arrays h A ! i) * (arrays h C ! i))))
                 / (2 * (arrays h A ! i))) h)
      else Raise IndexError h)"

definition unrolled_discriminant :: "ref \<Rightarrow> ref \<Rightarrow> ref \<Rightarrow> heap \<Rightarrow> ref result" where
  "unrolled_discriminant A B C h =
     (let (X, h1) = alloc (replicate (length (arrays h A)) 0) h
      in bind (for_each [0..<length (arrays h1 A)] (unrolled_discriminant_step A B C X) h1)
           (\<lambda>_ h2. Return X h2))"

definition numpy_discriminant :: "ref \<Rightarrow> ref \<Rightarrow> ref \<Rightarrow> heap \<Rightarrow> ref result" where
  "numpy_discriminant A B C h =
     (case broadcast2 (*) (map (\<lambda>x. 4 * x) (arrays h A)) (arrays h C) of
        Inl e \<Rightarrow> Raise e h
      | Inr ac4 \<Rightarrow>
     (case broadcast2 (-) (map (\<lambda>x. x ^ 2) (arrays h B)) ac4 of
        Inl e \<Rightarrow> Raise e h
      | Inr d \<Rightarrow>
     (case broadcast2 (+) (map uminus (arrays h B)) (np_sqrt (np_abs d)) of
        Inl e \<Rightarrow> Raise e h
      | Inr num \<Rightarrow>
     (case broadcast2 (/) num (map (\<lambda>x. 2 * x) (arrays h A)) of
        Inl e \<Rightarrow> Raise e h
      | Inr x \<Rightarrow> (let (X, h1) = alloc x h in Return X h1)))))"

section \<open>Notebook 03: the tracking loop\<close>

subsection \<open>Kick and drift\<close>

text \<open>
  \<^verbatim>\<open>
  def kick_numpy(dt, dE, voltage, omega, phi, acc_kick):
      for j in range(len(voltage)):
          dE += voltage[j] * np.sin(omega[j] * dt + phi[j])
      dE += acc_kick
  \<close>
  Here \<open>voltage\<close>, \<open>omega\<close> and \<open>phi\<close> are arrays with one entry per harmonic and
  \<open>acc_kick\<close> is a float.
\<close>

definition kick_numpy_step :: "ref \<Rightarrow> ref \<Rightarrow> ref \<Rightarrow> ref \<Rightarrow> ref \<Rightarrow> nat \<Rightarrow> heap \<Rightarrow> unit result" where
  "kick_numpy_step dt dE voltage omega phi j h =
     (if j < length (arrays h omega) \<and> j < length (arrays h phi)
      then iadd dE
             (map (\<lambda>x. arrays h voltage ! j * x)
                (np_sin (map (\<lambda>x. x + arrays h phi ! j)
                           (map (\<lambda>x. arrays h omega ! j * x) (arrays h dt))))) h
      else Raise IndexError h)"

definition kick_numpy :: "ref \<Rightarrow> ref \<Rightarrow> ref \<Rightarrow> ref \<Rightarrow> ref \<Rightarrow> real \<Rightarrow> heap \<Rightarrow> unit result" where
  "kick_numpy dt dE voltage omega phi acc_kick h =
     bind (for_each [0..<length (arrays h voltage)] (kick_numpy_step dt dE voltage omega phi) h)
       (\<lambda>_. iadd_scalar dE acc_kick)"

text \<open>
  \<^verbatim>\<open>
  def drift_numpy(dt, dE, T0, length_ratio, beta, energy, alpha_zero,
                  alpha_one, alpha_two):
      inv_beta_sq = 1. / beta**2
      inv_ene_sq = 1. / energy**2
      beam_delta = np.sqrt(1. +
                           inv_beta_sq * (dE**2 * inv_ene_sq + 2 * dE/energy)) - 1.
      dt += T0 * length_ratio * (
          (1 + alpha_zero * beam_delta +
           alpha_one * (beam_delta**2) +
           alpha_two * beam_delta**3) *
          (1 + dE/energy) / (1 + beam_delta) - 1)
  \<close>
  The scalar parameters are Python floats, so the two reciprocals raise
  ZeroDivisionError for a zero \<open>beta\<close> or \<open>energy\<close>. The array expressions never raise:
  where numpy would store nan (a negative radicand) or inf (\<open>beam_delta = -1\<close>) the model
  has HOL's value of \<open>sqrt\<close> and of the quotient, and no theorem below depends on it.
\<close>

definition drift_numpy :: "ref \<Rightarrow> ref \<Rightarrow> real \<Rightarrow> real \<Rightarrow> real \<Rightarrow> real \<Rightarrow> real \<Rightarrow> real \<Rightarrow> real \<Rightarrow> heap \<Rightarrow> unit result" where
  "drift_numpy dt dE T0 length_ratio beta energy alpha_zero alpha_one alpha_two h =
     (if beta ^ 2 = 0 then Raise ZeroDivisionError h
      else if energy ^ 2 = 0 then Raise ZeroDivisionError h
      else
        let inv_beta_sq = 1 / beta ^ 2;
            inv_ene_sq = 1 / energy ^ 2;
            beam_delta =
              map (\<lambda>e. sqrt (1 + inv_beta_sq * (e ^ 2 * inv_ene_sq + 2 * e / energy)) - 1)
                (arrays h dE)
        in iadd dt
             (map2 (\<lambda>bd e. T0 * length_ratio *
                      ((1 + alpha_zero * bd + alpha_one * bd ^ 2 + alpha_two * bd ^ 3)
                         * (1 + e / energy) / (1 + bd) - 1))
                beam_delta (arrays h dE)) h)"

subsection \<open>The histogram\<close>

text \<open>
  \<open>np.histogram\<close> belongs to numpy, not to the notebooks, so \<open>histo_numpy\<close> takes it as
  a parameter: a function from the data, the number of bins and the range to either an
  error or the pair of counts and bin edges. \<open>np_histogram\<close> is numpy's documented
  behaviour for an integer number of bins and an explicit range, in exact arithmetic:
  values outside the closed range are dropped, the right edge belongs to the last bin.
\<close>

type_synonym histogram_fn = "real list \<Rightarrow> nat \<Rightarrow> real \<times> real \<Rightarrow> error + real list \<times> real list"

definition np_histogram :: histogram_fn where
  "np_histogram a bins rng =
     (if bins < 1 then Inl ValueError
      else if fst rng > snd rng then Inl ValueError
      else
        let first_edge = (if fst rng = snd rng then fst rng - 1 / 2 else fst rng);
            last_edge = (if fst rng = snd rng then snd rng + 1 / 2 else snd rng);
            norm = real bins / (last_edge - first_edge);
            kept = filter (\<lambda>x. first_edge \<le> x \<and> x \<le> last_edge) a;
            indices = map (\<lambda>x. let i = nat \<lfloor>(x - first_edge) * norm\<rfloor>
                                in if i = bins then i - 1 else i) kept;
            hist = map (\<lambda>k. real (count_list indices k)) [0..<bins];
            bin_edges = map (\<lambda>k. first_edge + real k * (last_edge - first_edge) / real bins)
                          [0..<bins + 1]
        in Inr (hist, bin_edges))"

text \<open>
  \<^verbatim>\<open>
  def histo_numpy(dt, profile, cut_left, cut_right):
      profile, _ = np.histogram(dt, bins=len(profile),
                                range=(cut_left, cut_right))
  \<close>
  The two arrays that \<open>np.histogram\<close> returns are new objects. The assignment rebinds
  the local name \<open>profile\<close> to the first of them; the function returns nothing.
\<close>

definition histo_numpy :: "histogram_fn \<Rightarrow> ref \<Rightarrow> ref \<Rightarrow> real \<Rightarrow> real \<Rightarrow> heap \<Rightarrow> unit result" where
  "histo_numpy histogram dt profile cut_left cut_right h =
     (case histogram (arrays h dt) (length (arrays h profile)) (cut_left, cut_right) of
        Inl e \<Rightarrow> Raise e h
      | Inr (hist, bin_edges) \<Rightarrow>
          (let (hist_ref, h1) = alloc hist h;
               (edges_ref, h2) = alloc bin_edges h1;
               profile = hist_ref
           in Return () h2))"

text \<open>
  \<^verbatim>\<open>
  def histo_unrolled(dt, profile, cut_left, cut_right):
      inv_bin_width = len(profile) / (cut_right - cut_left)
      target_bin = np.floor((dt - cut_left) * inv_bin_width)
      for i in range(len(target_bin)):
          if target_bin[i] >= 0 and target_bin[i] < len(profile):
              profile[int(target_bin[i])] += 1.0
  \<close>
  The bin index is the floor of a float64 product with the rounded reciprocal
  \<open>inv_bin_width\<close>, and a floor turns a rounding error into a different bin. So in this
  function the rounding of float64 arithmetic stays explicit: every arithmetic result
  passes through \<open>fl rnd\<close>, where the parameter \<open>rnd\<close> stands for the rounding of the
  machine. A result that is a multiple of \<open>2^-10\<close> of magnitude at most \<open>2^40\<close> is a
  float64 value itself and is therefore not rounded; any other result is whatever \<open>rnd\<close>
  makes of it. Overflow to inf is outside the model.

  The two cuts are scalars of either kind. When both are Python floats their difference
  is one, and dividing by a zero difference raises ZeroDivisionError. When one of them is
  a float64 scalar (as in the notebook, where they come from \<open>dt.min()\<close> and \<open>dt.max()\<close>)
  the difference is a float64, dividing by zero gives inf or nan with a warning only,
  every comparison of the guard is then false and no bin is touched.
  \<open>target_bin\<close> is computed once, before the loop.
\<close>

definition exact64 :: "real \<Rightarrow> bool" where
  "exact64 x \<longleftrightarrow> x * 1024 \<in> \<int> \<and> \<bar>x\<bar> \<le> 2 ^ 40"

definition fl :: "(real \<Rightarrow> real) \<Rightarrow> real \<Rightarrow> real" where
  "fl rnd x = (if exact64 x then x else rnd x)"

datatype scalar = PyFloat real | Float64 real

fun scalar_value :: "scalar \<Rightarrow> real" where
  "scalar_value (PyFloat x) = x"
| "scalar_value (Float64 x) = x"

fun is_py_float :: "scalar \<Rightarrow> bool" where
  "is_py_float (PyFloat x) = True"
| "is_py_float (Float64 x) = False"

definition py_int :: "real \<Rightarrow> int" where
  "py_int x = (if 0 \<le> x then \<lfloor>x\<rfloor> else \<lceil>x\<rceil>)"

definition histo_unrolled_step :: "(real \<Rightarrow> real) \<Rightarrow> ref \<Rightarrow> real list \<Rightarrow> nat \<Rightarrow> heap \<Rightarrow> unit result" where
  "histo_unrolled_step rnd profile target_bin i h =
     (if target_bin ! i \<ge> 0 \<and> target_bin ! i < real (length (arrays h profile))
      then Return ()
             (setitem profile (nat (py_int (target_bin ! i)))
                (fl rnd (arrays h profile ! nat (py_int (target_bin ! i)) + 1)) h)
      else Return () h)"

definition histo_unrolled :: "(real \<Rightarrow> real) \<Rightarrow> ref \<Rightarrow> ref \<Rightarrow> scalar \<Rightarrow> scalar \<Rightarrow> heap \<Rightarrow> unit result" where
  "histo_unrolled rnd dt profile cut_left cut_right h =
     (let width = fl rnd (scalar_value cut_right - scalar_value cut_left)
      in if width = 0
         then (if is_py_float cut_left \<and> is_py_float cut_right
               then Raise ZeroDivisionError h else Return () h)
         else
           let inv_bin_width = fl rnd (real (length (arrays h profile)) / width);
               target_bin =
                 map (\<lambda>t. of_int \<lfloor>fl rnd (fl rnd (t - scalar_value cut_left) * inv_bin_width)\<rfloor>)
                   (arrays h dt)
           in for_each [0..<length target_bin] (histo_unrolled_step rnd profile target_bin) h)"

subsection \<open>The main loop\<close>

text \<open>
  \<^verbatim>\<open>
  n_iter = 10

  def loop_numpy(dt, dE, profile, cut_left, cut_right, voltage, omega, phi,
                 acc_kick, T0, length_ratio, beta, energy,
                 alpha_zero, alpha_one, alpha_two):
      for i in range(n_iter):
          kick_numpy(dt, dE, voltage, omega, phi, acc_kick)
          drift_numpy(dt, dE, T0, length_ratio, beta, energy, alpha_zero, alpha_one, alpha_two)
          profile *= 0.0
          histo_numpy(dt, profile, cut_left, cut_right)
  \<close>
\<close>

definition n_iter :: nat where
  "n_iter = 10"

definition loop_numpy_body :: "histogram_fn \<Rightarrow> ref \<Rightarrow> ref \<Rightarrow> ref \<Rightarrow> real \<Rightarrow> real \<Rightarrow> ref \<Rightarrow> ref \<Rightarrow> ref \<Rightarrow>
    real \<Rightarrow> real \<Rightarrow> real \<Rightarrow> real \<Rightarrow> real \<Rightarrow> real \<Rightarrow> real \<Rightarrow> real \<Rightarrow> nat \<Rightarrow> heap \<Rightarrow> unit result" where
  "loop_numpy_body histogram dt dE profile cut_left cut_right voltage omega phi
       acc_kick T0 length_ratio beta energy alpha_zero alpha_one alpha_two i h =
     bind (kick_numpy dt dE voltage omega phi acc_kick h) (\<lambda>_ h.
     bind (drift_numpy dt dE T0 length_ratio beta energy alpha_zero alpha_one alpha_two h) (\<lambda>_ h.
     bind (imul_scalar profile 0 h) (\<lambda>_ h.
     histo_numpy histogram dt profile cut_left cut_right h)))"

definition loop_numpy :: "histogram_fn \<Rightarrow> ref \<Rightarrow> ref \<Rightarrow> ref \<Rightarrow> real \<Rightarrow> real \<Rightarrow> ref \<Rightarrow> ref \<Rightarrow> ref \<Rightarrow>
    real \<Rightarrow> real \<Rightarrow> real \<Rightarrow> real \<Rightarrow> real \<Rightarrow> real \<Rightarrow> real \<Rightarrow> real \<Rightarrow> heap \<Rightarrow> unit result" where
  "loop_numpy histogram dt dE profile cut_left cut_right voltage omega phi
       acc_kick T0 length_ratio beta energy alpha_zero alpha_one alpha_two h =
     for_each [0..<n_iter]
       (loop_numpy_body histogram dt dE profile cut_left cut_right voltage omega phi
          acc_kick T0 length_ratio beta energy alpha_zero alpha_one alpha_two) h"

subsection \<open>The histogram as the specification words it\<close>

text \<open>
  The bucket count of the specification: a particle at \<open>t\<close> belongs to bin
  \<open>floor((t - cut_left) * n / (cut_right - cut_left))\<close>, and \<open>bin_counts\<close> lists, for
  each of the \<open>n\<close> bins, how many particles belong to it.
\<close>

definition bin_counts :: "real list \<Rightarrow> nat \<Rightarrow> real \<Rightarrow> real \<Rightarrow> real list" where
  "bin_counts dt n cut_left cut_right =
     map (\<lambda>k. real (length (filter
                (\<lambda>t. \<lfloor>(t - cut_left) * real n / (cut_right - cut_left)\<rfloor> = int k) dt)))
       [0..<n]"

subsection \<open>A small run of the loop\<close>

text \<open>
  One particle at \<open>0.5\<close> with zero energy offset, a profile of two bins over the range
  \<open>(0, 1)\<close> that starts at \<open>[7, 7]\<close>, and one harmonic of zero voltage: the store holds
  \<open>dt\<close>, \<open>dE\<close>, \<open>profile\<close>, \<open>voltage\<close>, \<open>omega\<close> and \<open>phi\<close> at references 0 to 5.
\<close>

definition example_heap :: heap where
  "example_heap = heap_with [[1 / 2], [0], [7, 7], [0], [0], [0]]"

definition example_run :: "unit result" where
  "example_run = loop_numpy np_histogram 0 1 2 0 1 3 4 5 0 1 1 1 1 0 0 0 example_heap"

section \<open>Relations between stores\<close>

text \<open>
  \<open>writes_only p h h'\<close>: going from \<open>h\<close> to \<open>h'\<close> created no array and changed at most
  the contents, not the length, of the array at \<open>p\<close>. \<open>grows h h'\<close>: every array that
  exists in \<open>h\<close> still exists in \<open>h'\<close> with the same length.
\<close>

definition writes_only :: "ref \<Rightarrow> heap \<Rightarrow> heap \<Rightarrow> bool" where
  "writes_only p h h' \<longleftrightarrow>
     next_ref h' = next_ref h \<and> length (arrays h' p) = length (arrays h p) \<and>
     (\<forall>q. q \<noteq> p \<longrightarrow> arrays h' q = arrays h q)"

definition grows :: "heap \<Rightarrow> heap \<Rightarrow> bool" where
  "grows h h' \<longleftrightarrow>
     next_ref h \<le> next_ref h' \<and> (\<forall>q<next_ref h. length (arrays h' q) = length (arrays h q))"

section \<open>Properties\<close>

lemma arrays_store [simp]: "arrays (store p v h) q = (if q = p then v else arrays h q)"
  by (simp add: store_def)

lemma next_ref_store [simp]: "next_ref (store p v h) = next_ref h"
  by (simp add: store_def)

lemma store_store [simp]: "store p v (store p w h) = store p v h"
  by (simp add: store_def)

lemma store_same [simp]: "store p (arrays h p) h = h"
  by (simp add: store_def)

lemma setitem_store [simp]: "setitem p i v (store p zs h) = store p (zs[i := v]) h"
  by (simp add: setitem_def)

lemma for_each_setitem_aux:
  assumes "distinct is" and "\<forall>i\<in>set is. i < length ys"
    and "\<And>i zs. i \<in> set is \<Longrightarrow> length zs = length ys \<Longrightarrow> zs ! i = ys ! i \<Longrightarrow>
           body i (store X zs h) = Return () (store X (zs[i := g i]) h)"
  shows "for_each is body (store X ys h) =
           Return () (store X (map (\<lambda>i. if i \<in> set is then g i else ys ! i) [0..<length ys]) h)"
  using assms
proof (induction "is" arbitrary: ys)
  case Nil
  then show ?case by (simp add: map_nth)
next
  case (Cons i "is")
  have i: "i < length ys" and notin: "i \<notin> set is" using Cons.prems by auto
  have step: "body i (store X ys h) = Return () (store X (ys[i := g i]) h)"
    using Cons.prems(3) [of i ys] by simp
  have rest: "for_each is body (store X (ys[i := g i]) h) =
      Return () (store X (map (\<lambda>j. if j \<in> set is then g j else (ys[i := g i]) ! j)
                            [0..<length (ys[i := g i])]) h)"
  proof (rule Cons.IH)
    show "distinct is" using Cons.prems by simp
    show "\<forall>j\<in>set is. j < length (ys[i := g i])" using Cons.prems by simp
  next
    fix j zs
    assume j: "j \<in> set is" and len: "length zs = length (ys[i := g i])"
      and eq: "zs ! j = ys[i := g i] ! j"
    from j notin have "j \<noteq> i" by auto
    with eq have "zs ! j = ys ! j" by simp
    with j len show "body j (store X zs h) = Return () (store X (zs[j := g j]) h)"
      using Cons.prems(3) [of j zs] by simp
  qed
  have "map (\<lambda>j. if j \<in> set is then g j else (ys[i := g i]) ! j) [0..<length ys] =
        map (\<lambda>j. if j \<in> set (i # is) then g j else ys ! j) [0..<length ys]"
    using i by (auto simp: nth_list_update)
  with step rest show ?case by simp
qed

lemma for_each_setitem:
  assumes "n \<le> length (arrays h X)"
    and "\<And>i zs. i < n \<Longrightarrow> length zs = length (arrays h X) \<Longrightarrow> zs ! i = arrays h X ! i \<Longrightarrow>
           body i (store X zs h) = Return () (store X (zs[i := g i]) h)"
  shows "for_each [0..<n] body h =
           Return () (store X (map (\<lambda>i. if i < n then g i else arrays h X ! i)
                                  [0..<length (arrays h X)]) h)"
  using for_each_setitem_aux [of "[0..<n]" "arrays h X" body X h g] assms by simp

lemma kick_unrolled_result:
  assumes "length (arrays h dt) = length (arrays h dE)"
  shows "kick_unrolled dt dE voltage omega phi acc_kick h =
           Return () (store dE (map2 (\<lambda>e t. e + (voltage * sin (omega * t + phi) + acc_kick))
                                 (arrays h dE) (arrays h dt)) h)"
proof -
  let ?g = "\<lambda>i. arrays h dE ! i + (voltage * sin (omega * (arrays h dt ! i) + phi) + acc_kick)"
  have "for_each [0..<length (arrays h dt)] (kick_unrolled_step dt dE voltage omega phi acc_kick) h =
          Return () (store dE (map (\<lambda>i. if i < length (arrays h dt) then ?g i else arrays h dE ! i)
                                 [0..<length (arrays h dE)]) h)"
  proof (rule for_each_setitem)
    show "length (arrays h dt) \<le> length (arrays h dE)" using assms by simp
  next
    fix i zs
    assume "i < length (arrays h dt)" "length zs = length (arrays h dE)" "zs ! i = arrays h dE ! i"
    then show "kick_unrolled_step dt dE voltage omega phi acc_kick i (store dE zs h) =
                 Return () (store dE (zs[i := ?g i]) h)"
      using assms by (simp add: kick_unrolled_step_def)
  qed
  moreover have "map (\<lambda>i. if i < length (arrays h dt) then ?g i else arrays h dE ! i)
                   [0..<length (arrays h dE)] =
                 map2 (\<lambda>e t. e + (voltage * sin (omega * t + phi) + acc_kick))
                   (arrays h dE) (arrays h dt)"
    using assms by (intro nth_equalityI) simp_all
  ultimately show ?thesis by (simp add: kick_unrolled_def)
qed

lemma kick_numpy_intro_result:
  assumes "length (arrays h dt) = length (arrays h dE)"
  shows "kick_numpy_intro dt dE voltage omega phi acc_kick h =
           Return () (store dE (map2 (\<lambda>e t. e + (voltage * sin (omega * t + phi) + acc_kick))
                                 (arrays h dE) (arrays h dt)) h)"
proof -
  have "map2 (+) (arrays h dE)
          (map (\<lambda>x. x + acc_kick) (map (\<lambda>x. voltage * x)
             (np_sin (map (\<lambda>x. x + phi) (map (\<lambda>x. omega * x) (arrays h dt)))))) =
        map2 (\<lambda>e t. e + (voltage * sin (omega * t + phi) + acc_kick)) (arrays h dE) (arrays h dt)"
    using assms by (intro nth_equalityI) (simp_all add: np_sin_def)
  then show ?thesis using assms by (simp add: kick_numpy_intro_def iadd_def np_sin_def Let_def)
qed

lemma arrays_alloc: "arrays (snd (alloc v h)) q = (if q = next_ref h then v else arrays h q)"
  by (simp add: alloc_def)

lemma alloc_store: "alloc v h = (next_ref h, store (next_ref h) v (h\<lparr>next_ref := Suc (next_ref h)\<rparr>))"
  by (simp add: alloc_def store_def)

lemma unrolled_discriminant_result:
  assumes len: "length (arrays h B) = length (arrays h A)" "length (arrays h C) = length (arrays h A)"
    and valid: "A < next_ref h" "B < next_ref h" "C < next_ref h"
  shows "unrolled_discriminant A B C h =
           Return (next_ref h)
             (snd (alloc (map (\<lambda>i. (- (arrays h B ! i) +
                              sqrt (abs ((arrays h B ! i) ^ 2 - 4 * (arrays h A ! i) * (arrays h C ! i))))
                            / (2 * (arrays h A ! i))) [0..<length (arrays h A)]) h))"
proof -
  let ?X = "next_ref h"
  let ?h0 = "h\<lparr>next_ref := Suc (next_ref h)\<rparr>"
  let ?h1 = "store ?X (replicate (length (arrays h A)) 0) ?h0"
  let ?g = "\<lambda>i. (- (arrays h B ! i) +
                sqrt (abs ((arrays h B ! i) ^ 2 - 4 * (arrays h A ! i) * (arrays h C ! i))))
              / (2 * (arrays h A ! i))"
  have ne: "A \<noteq> ?X" "B \<noteq> ?X" "C \<noteq> ?X" using valid by auto
  have loop: "for_each [0..<length (arrays h A)] (unrolled_discriminant_step A B C ?X) ?h1 =
          Return () (store ?X (map (\<lambda>i. if i < length (arrays h A) then ?g i else arrays ?h1 ?X ! i)
                                 [0..<length (arrays ?h1 ?X)]) ?h1)"
  proof (rule for_each_setitem)
    show "length (arrays h A) \<le> length (arrays ?h1 ?X)" by simp
  next
    fix i and zs :: "real list"
    assume "i < length (arrays h A)" "length zs = length (arrays ?h1 ?X)"
    then show "unrolled_discriminant_step A B C ?X i (store ?X zs ?h1) =
                 Return () (store ?X (zs[i := ?g i]) ?h1)"
      using len ne by (simp add: unrolled_discriminant_step_def)
  qed
  have mapeq: "map (\<lambda>i. if i < length (arrays h A) then ?g i else arrays ?h1 ?X ! i)
          [0..<length (arrays ?h1 ?X)] = map ?g [0..<length (arrays h A)]"
    by simp
  have loop': "for_each [0..<length (arrays h A)] (unrolled_discriminant_step A B C ?X) ?h1 =
          Return () (store ?X (map ?g [0..<length (arrays h A)]) ?h0)"
    unfolding loop mapeq by simp
  have "arrays ?h1 A = arrays h A" using ne by simp
  then show ?thesis
    unfolding unrolled_discriminant_def alloc_store by (simp add: loop')
qed

lemma numpy_discriminant_result:
  assumes len: "length (arrays h B) = length (arrays h A)" "length (arrays h C) = length (arrays h A)"
  shows "numpy_discriminant A B C h =
           Return (next_ref h)
             (snd (alloc (map (\<lambda>i. (- (arrays h B ! i) +
                              sqrt (abs ((arrays h B ! i) ^ 2 - 4 * (arrays h A ! i) * (arrays h C ! i))))
                            / (2 * (arrays h A ! i))) [0..<length (arrays h A)]) h))"
proof -
  let ?g = "\<lambda>i. (- (arrays h B ! i) +
                sqrt (abs ((arrays h B ! i) ^ 2 - 4 * (arrays h A ! i) * (arrays h C ! i))))
              / (2 * (arrays h A ! i))"
  have 1: "broadcast2 (*) (map (\<lambda>x. 4 * x) (arrays h A)) (arrays h C) =
             Inr (map (\<lambda>i. 4 * (arrays h A ! i) * (arrays h C ! i)) [0..<length (arrays h A)])"
    using len by (simp add: broadcast2_def) (intro nth_equalityI, simp_all)
  have 2: "broadcast2 (-) (map (\<lambda>x. x ^ 2) (arrays h B))
             (map (\<lambda>i. 4 * (arrays h A ! i) * (arrays h C ! i)) [0..<length (arrays h A)]) =
             Inr (map (\<lambda>i. (arrays h B ! i) ^ 2 - 4 * (arrays h A ! i) * (arrays h C ! i))
                    [0..<length (arrays h A)])"
    using len by (simp add: broadcast2_def) (intro nth_equalityI, simp_all)
  have 3: "broadcast2 (+) (map uminus (arrays h B))
             (np_sqrt (np_abs (map (\<lambda>i. (arrays h B ! i) ^ 2 - 4 * (arrays h A ! i) * (arrays h C ! i))
                    [0..<length (arrays h A)]))) =
             Inr (map (\<lambda>i. - (arrays h B ! i) +
                    sqrt (abs ((arrays h B ! i) ^ 2 - 4 * (arrays h A ! i) * (arrays h C ! i))))
                    [0..<length (arrays h A)])"
    using len by (simp add: broadcast2_def np_sqrt_def np_abs_def) (intro nth_equalityI, simp_all)
  have 4: "broadcast2 (/) (map (\<lambda>i. - (arrays h B ! i) +
                    sqrt (abs ((arrays h B ! i) ^ 2 - 4 * (arrays h A ! i) * (arrays h C ! i))))
                    [0..<length (arrays h A)]) (map (\<lambda>x. 2 * x) (arrays h A)) =
             Inr (map ?g [0..<length (arrays h A)])"
    using len by (simp add: broadcast2_def) (intro nth_equalityI, simp_all)
  show ?thesis
    by (simp only: numpy_discriminant_def 1 2 3 4 sum.case) (simp add: alloc_def)
qed

lemma writes_only_refl [simp]: "writes_only p h h"
  by (simp add: writes_only_def)

lemma writes_only_trans: "writes_only p h h1 \<Longrightarrow> writes_only p h1 h2 \<Longrightarrow> writes_only p h h2"
  by (simp add: writes_only_def)

lemma writes_only_store: "length v = length (arrays h p) \<Longrightarrow> writes_only p h (store p v h)"
  by (simp add: writes_only_def)

lemma writes_only_bind:
  assumes "writes_only p h (heap_of r)" and "\<And>v h1. writes_only p h1 (heap_of (f v h1))"
  shows "writes_only p h (heap_of (bind r f))"
proof (cases r)
  case (Return v h1)
  with assms(1) assms(2) [of h1 v] show ?thesis
    by (auto intro: writes_only_trans)
next
  case (Raise e h1)
  with assms(1) show ?thesis by simp
qed

lemma writes_only_for_each:
  assumes "\<And>i h1. writes_only p h1 (heap_of (body i h1))"
  shows "writes_only p h (heap_of (for_each is body h))"
proof (induction "is" arbitrary: h)
  case Nil
  show ?case by simp
next
  case (Cons i "is")
  show ?case
    unfolding for_each.simps
    by (rule writes_only_bind) (rule assms, rule Cons.IH)
qed

lemma writes_only_iadd: "writes_only p h (heap_of (iadd p ys h))"
  by (simp add: iadd_def Let_def writes_only_store)

lemma writes_only_iadd_scalar: "writes_only p h (heap_of (iadd_scalar p c h))"
  by (simp add: iadd_scalar_def writes_only_store)

lemma writes_only_imul_scalar: "writes_only p h (heap_of (imul_scalar p c h))"
  by (simp add: imul_scalar_def writes_only_store)

lemma writes_only_kick_numpy:
  "writes_only dE h (heap_of (kick_numpy dt dE voltage omega phi acc_kick h))"
  unfolding kick_numpy_def
proof (rule writes_only_bind)
  show "writes_only dE h
     (heap_of (for_each [0..<length (arrays h voltage)] (kick_numpy_step dt dE voltage omega phi) h))"
    by (rule writes_only_for_each) (simp add: kick_numpy_step_def writes_only_iadd)
  show "\<And>v h1. writes_only dE h1 (heap_of (iadd_scalar dE acc_kick h1))"
    by (rule writes_only_iadd_scalar)
qed

lemma writes_only_drift_numpy:
  "writes_only dt h
     (heap_of (drift_numpy dt dE T0 length_ratio beta energy alpha_zero alpha_one alpha_two h))"
  by (simp add: drift_numpy_def Let_def writes_only_iadd)

lemma grows_refl [simp]: "grows h h"
  by (simp add: grows_def)

lemma grows_trans: "grows h h1 \<Longrightarrow> grows h1 h2 \<Longrightarrow> grows h h2"
  by (auto simp: grows_def)

lemma writes_only_grows: "writes_only p h h' \<Longrightarrow> grows h h'"
  by (auto simp: writes_only_def grows_def)

lemma histo_numpy_frame:
  "q < next_ref h \<Longrightarrow>
     arrays (heap_of (histo_numpy histogram dt profile cut_left cut_right h)) q = arrays h q"
  by (auto simp: histo_numpy_def alloc_def split: sum.splits prod.splits)

lemma histo_numpy_next_ref:
  "next_ref h \<le> next_ref (heap_of (histo_numpy histogram dt profile cut_left cut_right h))"
  by (auto simp: histo_numpy_def alloc_def split: sum.splits prod.splits)

lemma grows_histo_numpy:
  "grows h (heap_of (histo_numpy histogram dt profile cut_left cut_right h))"
  by (simp add: grows_def histo_numpy_frame histo_numpy_next_ref)

lemma bind_ReturnD:
  "bind r f = Return v h' \<Longrightarrow> \<exists>u h1. r = Return u h1 \<and> f u h1 = Return v h'"
  by (cases r) simp_all

lemma grows_bind:
  assumes "grows h (heap_of r)" and "\<And>v h1. grows h1 (heap_of (f v h1))"
  shows "grows h (heap_of (bind r f))"
proof (cases r)
  case (Return v h1)
  with assms(1) assms(2) [of h1 v] show ?thesis
    by (auto intro: grows_trans)
next
  case (Raise e h1)
  with assms(1) show ?thesis by simp
qed

lemma grows_for_each:
  assumes "\<And>i h1. grows h1 (heap_of (body i h1))"
  shows "grows h (heap_of (for_each is body h))"
proof (induction "is" arbitrary: h)
  case Nil
  show ?case by simp
next
  case (Cons i "is")
  show ?case
    unfolding for_each.simps
    by (rule grows_bind) (rule assms, rule Cons.IH)
qed

lemma grows_loop_numpy_body:
  "grows h (heap_of (loop_numpy_body histogram dt dE profile cut_left cut_right voltage omega phi
       acc_kick T0 length_ratio beta energy alpha_zero alpha_one alpha_two i h))"
  unfolding loop_numpy_body_def
  by (intro grows_bind writes_only_grows [OF writes_only_kick_numpy]
      writes_only_grows [OF writes_only_drift_numpy]
      writes_only_grows [OF writes_only_imul_scalar] grows_histo_numpy)

lemma loop_numpy_body_profile:
  assumes "profile < next_ref h"
    and "loop_numpy_body histogram dt dE profile cut_left cut_right voltage omega phi
       acc_kick T0 length_ratio beta energy alpha_zero alpha_one alpha_two i h = Return () h'"
  shows "arrays h' profile = replicate (length (arrays h profile)) 0"
proof -
  from assms(2) obtain ha where ha: "kick_numpy dt dE voltage omega phi acc_kick h = Return () ha"
    and r1: "bind (drift_numpy dt dE T0 length_ratio beta energy alpha_zero alpha_one alpha_two ha) (\<lambda>_ h.
     bind (imul_scalar profile 0 h) (\<lambda>_ h.
     histo_numpy histogram dt profile cut_left cut_right h)) = Return () h'"
    unfolding loop_numpy_body_def by (auto dest!: bind_ReturnD)
  from r1 obtain hb where
    hb: "drift_numpy dt dE T0 length_ratio beta energy alpha_zero alpha_one alpha_two ha = Return () hb"
    and r2: "histo_numpy histogram dt profile cut_left cut_right
               (store profile (map (\<lambda>x. x * 0) (arrays hb profile)) hb) = Return () h'"
    by (auto dest!: bind_ReturnD simp: imul_scalar_def)
  have "grows h ha"
    using writes_only_grows [OF writes_only_kick_numpy [of dE h dt voltage omega phi acc_kick]] ha
    by simp
  moreover have "grows ha hb"
    using writes_only_grows [OF writes_only_drift_numpy
        [of dt ha dE T0 length_ratio beta energy alpha_zero alpha_one alpha_two]] hb
    by simp
  ultimately have g: "grows h hb" by (rule grows_trans)
  with assms(1) have valid: "profile < next_ref hb"
    and len: "length (arrays hb profile) = length (arrays h profile)"
    by (auto simp: grows_def)
  let ?hc = "store profile (map (\<lambda>x. x * 0) (arrays hb profile)) hb"
  have "arrays h' profile = arrays ?hc profile"
    using histo_numpy_frame [of profile ?hc histogram dt profile cut_left cut_right] valid r2
    by simp
  also have "\<dots> = replicate (length (arrays h profile)) 0"
    using len by (simp add: map_replicate_const)
  finally show ?thesis .
qed

lemma for_each_append:
  "for_each (xs @ ys) body h = bind (for_each xs body h) (\<lambda>_. for_each ys body)"
proof (induction xs arbitrary: h)
  case Nil
  show ?case by simp
next
  case (Cons x xs)
  show ?case
    by (cases "body x h") (simp_all add: Cons.IH)
qed

lemma for_each_Suc:
  "for_each [0..<Suc n] body h = bind (for_each [0..<n] body h) (\<lambda>_. body n)"
proof -
  have "(\<lambda>_::unit. for_each [n] body) = (\<lambda>_. body n)"
  proof (rule ext)+
    fix u h1 show "for_each [n] body h1 = body n h1"
      by (cases "body n h1") simp_all
  qed
  then show ?thesis by (simp add: for_each_append)
qed

lemma loop_numpy_profile:
  assumes "profile < next_ref h"
    and "loop_numpy histogram dt dE profile cut_left cut_right voltage omega phi
       acc_kick T0 length_ratio beta energy alpha_zero alpha_one alpha_two h = Return () h'"
  shows "arrays h' profile = replicate (length (arrays h profile)) 0"
proof -
  let ?body = "loop_numpy_body histogram dt dE profile cut_left cut_right voltage omega phi
       acc_kick T0 length_ratio beta energy alpha_zero alpha_one alpha_two"
  have n: "n_iter = Suc 9" by (simp add: n_iter_def)
  have "bind (for_each [0..<9] ?body h) (\<lambda>_. ?body 9) = Return () h'"
    using assms(2) unfolding loop_numpy_def n for_each_Suc .
  then obtain h9 where h9: "for_each [0..<9] ?body h = Return () h9"
    and last: "?body 9 h9 = Return () h'"
    by (auto dest!: bind_ReturnD)
  have "grows h (heap_of (for_each [0..<9] ?body h))"
    by (rule grows_for_each) (rule grows_loop_numpy_body)
  with h9 assms(1) have "profile < next_ref h9" "length (arrays h9 profile) = length (arrays h profile)"
    by (auto simp: grows_def)
  with loop_numpy_body_profile [OF _ last] show ?thesis by simp
qed

lemma for_each_funpow:
  "for_each [0..<n] (\<lambda>i. step) h = ((\<lambda>r. bind r (\<lambda>_. step)) ^^ n) (Return () h)"
  by (induction n) (simp_all add: for_each_Suc del: upt_Suc)


lemma example_run_returns:
  "\<exists>h'. example_run = Return () h' \<and> arrays h' 0 = [1 / 2]"
  by (simp add: example_run_def example_heap_def heap_with_def loop_numpy_def n_iter_def
      loop_numpy_body_def kick_numpy_def kick_numpy_step_def drift_numpy_def iadd_def
      iadd_scalar_def imul_scalar_def histo_numpy_def np_histogram_def alloc_def store_def
      np_sin_def upt_rec Let_def)

lemma bin_counts_example:
  "bin_counts [1 / 2] 2 0 1 = [0, 1]" "bin_counts [1 / 2] (Suc (Suc 0)) 0 1 = [0, 1]"
  by (simp_all add: bin_counts_def upt_rec)

lemma foldl_add_sum_list: "foldl (\<lambda>total elem. total + elem) a xs = a + sum_list (xs :: real list)"
  by (induction xs arbitrary: a) simp_all

text \<open>
  C10: \<open>average_unrolled(arr)\<close> raises ZeroDivisionError if and only if \<open>arr\<close> is empty;
  for every non-empty array it returns the sum of the elements divided by the length, and
  the store (so \<open>arr\<close> itself) is left as it was.
\<close>

theorem average_unrolled_spec:
  "((\<exists>h'. average_unrolled arr h = Raise ZeroDivisionError h') \<longleftrightarrow> arrays h arr = []) \<and>
   (arrays h arr \<noteq> [] \<longrightarrow>
      average_unrolled arr h =
        Return (sum_list (arrays h arr) / real (length (arrays h arr))) h)"
  by (simp add: average_unrolled_def Let_def foldl_add_sum_list)

theorem average_unrolled_spec_witness:
  "arrays (heap_with [[1, 2, 6], []]) 0 \<noteq> [] \<and>
   average_unrolled 0 (heap_with [[1, 2, 6], []]) = Return 3 (heap_with [[1, 2, 6], []]) \<and>
   arrays (heap_with [[1, 2, 6], []]) 1 = [] \<and>
   (\<exists>h'. average_unrolled 1 (heap_with [[1, 2, 6], []]) = Raise ZeroDivisionError h')"
  using average_unrolled_spec [of 0 "heap_with [[1, 2, 6], []]"]
        average_unrolled_spec [of 1 "heap_with [[1, 2, 6], []]"]
  by (simp add: heap_with_def)

text \<open>
  C7: \<open>get_access(input_pass)\<close> returns 'Access Granted!' exactly when \<open>input_pass\<close>
  equals the current value of the global \<open>secure_pass\<close> and 'Access Denied!' otherwise;
  after the global is reassigned the very next call compares against the new value.
\<close>

theorem get_access_spec:
  "get_access g input_pass =
     (if input_pass = secure_pass g then ''Access Granted!'' else ''Access Denied!'') \<and>
   get_access (assign_secure_pass new_pass g) input_pass =
     (if input_pass = new_pass then ''Access Granted!'' else ''Access Denied!'')"
  by (auto simp: get_access_def assign_secure_pass_def)

theorem get_access_spec_witness:
  "get_access initial_globals ''1234'' = ''Access Granted!'' \<and>
   get_access initial_globals ''5678'' = ''Access Denied!'' \<and>
   get_access (assign_secure_pass ''5678'' initial_globals) ''5678'' = ''Access Granted!'' \<and>
   get_access (assign_secure_pass ''5678'' initial_globals) ''1234'' = ''Access Denied!''"
  using get_access_spec [of initial_globals "''1234''" "''5678''"]
        get_access_spec [of initial_globals "''5678''" "''5678''"]
  by (simp add: initial_globals_def)

text \<open>
  C3: for equal-length \<open>dt\<close> and \<open>dE\<close>, \<open>kick_unrolled\<close> returns normally, sets every
  element \<open>i\<close> of \<open>dE\<close> to its old value plus
  \<open>voltage * sin(omega * dt[i] + phi) + acc_kick\<close>, and changes nothing else in the store.
\<close>

theorem kick_unrolled_elementwise:
  assumes "length (arrays h dt) = length (arrays h dE)"
  shows "let h' = heap_of (kick_unrolled dt dE voltage omega phi acc_kick h)
         in kick_unrolled dt dE voltage omega phi acc_kick h = Return () h' \<and>
            length (arrays h' dE) = length (arrays h dE) \<and>
            (\<forall>i<length (arrays h dE).
               arrays h' dE ! i =
                 arrays h dE ! i + (voltage * sin (omega * (arrays h dt ! i) + phi) + acc_kick)) \<and>
            (\<forall>p. p \<noteq> dE \<longrightarrow> arrays h' p = arrays h p) \<and>
            next_ref h' = next_ref h"
  using assms by (simp add: kick_unrolled_result [OF assms])

theorem kick_unrolled_elementwise_witness:
  "length (arrays (heap_with [[0, pi / 2], [1, 2]]) 0) =
     length (arrays (heap_with [[0, pi / 2], [1, 2]]) 1) \<and>
   kick_unrolled 0 1 3 1 0 (1 / 2) (heap_with [[0, pi / 2], [1, 2]]) =
     Return () (heap_of (kick_unrolled 0 1 3 1 0 (1 / 2) (heap_with [[0, pi / 2], [1, 2]]))) \<and>
   arrays (heap_of (kick_unrolled 0 1 3 1 0 (1 / 2) (heap_with [[0, pi / 2], [1, 2]]))) 1 ! 0 = 3 / 2 \<and>
   arrays (heap_of (kick_unrolled 0 1 3 1 0 (1 / 2) (heap_with [[0, pi / 2], [1, 2]]))) 1 ! 1 = 11 / 2 \<and>
   arrays (heap_of (kick_unrolled 0 1 3 1 0 (1 / 2) (heap_with [[0, pi / 2], [1, 2]]))) 0 = [0, pi / 2]"
  using kick_unrolled_elementwise [of "heap_with [[0, pi / 2], [1, 2]]" 0 1 3 1 0 "1 / 2"]
  by (simp add: heap_with_def Let_def less_2_cases_iff)

text \<open>
  C2: for equal-length \<open>dt\<close> and \<open>dE\<close>, the looped kick and the vectorised kick of
  notebook 02 both return normally and leave the same store behind, so \<open>dE\<close> ends in the
  same state (exactly, in real arithmetic); when \<open>dt\<close> and \<open>dE\<close> are two arrays, \<open>dt\<close> is
  unchanged by both.
\<close>

theorem kick_unrolled_numpy_agree:
  assumes "length (arrays h dt) = length (arrays h dE)"
  shows "kick_numpy_intro dt dE voltage omega phi acc_kick h =
           Return () (heap_of (kick_numpy_intro dt dE voltage omega phi acc_kick h)) \<and>
         kick_unrolled dt dE voltage omega phi acc_kick h =
           kick_numpy_intro dt dE voltage omega phi acc_kick h \<and>
         (dt \<noteq> dE \<longrightarrow>
            arrays (heap_of (kick_numpy_intro dt dE voltage omega phi acc_kick h)) dt = arrays h dt)"
  by (simp add: kick_unrolled_result [OF assms] kick_numpy_intro_result [OF assms])

theorem kick_unrolled_numpy_agree_witness:
  "length (arrays (heap_with [[0, pi / 2], [1, 2]]) 0) =
     length (arrays (heap_with [[0, pi / 2], [1, 2]]) 1) \<and>
   kick_unrolled 0 1 3 1 0 (1 / 2) (heap_with [[0, pi / 2], [1, 2]]) =
     kick_numpy_intro 0 1 3 1 0 (1 / 2) (heap_with [[0, pi / 2], [1, 2]]) \<and>
   arrays (heap_of (kick_numpy_intro 0 1 3 1 0 (1 / 2) (heap_with [[0, pi / 2], [1, 2]]))) 1 =
     [3 / 2, 11 / 2] \<and>
   arrays (heap_of (kick_numpy_intro 0 1 3 1 0 (1 / 2) (heap_with [[0, pi / 2], [1, 2]]))) 0 =
     [0, pi / 2]"
  using kick_unrolled_numpy_agree [of "heap_with [[0, pi / 2], [1, 2]]" 0 1 3 1 0 "1 / 2"]
  by (simp add: heap_with_def kick_numpy_intro_def iadd_def np_sin_def)

text \<open>
  C4: \<open>standard_normal_pdf(x)\<close> is \<open>exp(-x^2/2) / sqrt(2*pi)\<close> for every real \<open>x\<close>, and
  \<open>numpy_pdf\<close> computes the same expression for every element of its argument, so the two
  agree on every array.
\<close>

theorem normal_pdf_spec:
  "standard_normal_pdf x = exp (- (x ^ 2) / 2) / sqrt (2 * pi) \<and>
   numpy_pdf xs = map (\<lambda>x. exp (- (x ^ 2) / 2) / sqrt (2 * pi)) xs \<and>
   numpy_pdf xs = map standard_normal_pdf xs"
  by (simp add: numpy_pdf_def np_exp_def standard_normal_pdf_def)

theorem normal_pdf_spec_witness:
  "standard_normal_pdf 0 = 1 / sqrt (2 * pi) \<and>
   numpy_pdf [0, 0] = [1 / sqrt (2 * pi), 1 / sqrt (2 * pi)] \<and>
   numpy_pdf [0, 0] = map standard_normal_pdf [0, 0]"
  using normal_pdf_spec [of 0 "[0, 0]"] by simp

text \<open>
  C5: for arrays \<open>A\<close>, \<open>B\<close>, \<open>C\<close> of equal length with every \<open>A[i]\<close> nonzero, the looped
  and the vectorised variant return the same new array, whose \<open>i\<close>-th element is
  \<open>(-B[i] + sqrt(|B[i]^2 - 4*A[i]*C[i]|)) / (2*A[i])\<close>, which is also what the scalar
  \<open>discriminant\<close> returns for the \<open>i\<close>-th elements; \<open>A\<close>, \<open>B\<close> and \<open>C\<close> are unchanged.
\<close>

theorem discriminant_variants_agree:
  assumes "length (arrays h B) = length (arrays h A)"
    and "length (arrays h C) = length (arrays h A)"
    and "\<forall>a\<in>set (arrays h A). a \<noteq> 0"
    and "A < next_ref h" and "B < next_ref h" and "C < next_ref h"
  shows "let X = next_ref h; h' = heap_of (numpy_discriminant A B C h)
         in numpy_discriminant A B C h = Return X h' \<and>
            unrolled_discriminant A B C h = Return X h' \<and>
            length (arrays h' X) = length (arrays h A) \<and>
            (\<forall>i<length (arrays h A).
               arrays h' X ! i =
                 (- (arrays h B ! i) +
                    sqrt (abs ((arrays h B ! i) ^ 2 - 4 * (arrays h A ! i) * (arrays h C ! i))))
                 / (2 * (arrays h A ! i)) \<and>
               discriminant (arrays h A ! i) (arrays h B ! i) (arrays h C ! i) =
                 Inr (arrays h' X ! i)) \<and>
            arrays h' A = arrays h A \<and> arrays h' B = arrays h B \<and> arrays h' C = arrays h C"
proof -
  have "\<forall>i<length (arrays h A). arrays h A ! i \<noteq> 0"
    using assms(3) by simp
  then show ?thesis
    using assms(4-6)
    by (simp add: numpy_discriminant_result [OF assms(1,2)]
        unrolled_discriminant_result [OF assms(1,2,4,5,6)] arrays_alloc discriminant_def)
qed

theorem discriminant_variants_agree_witness:
  "0 \<notin> set (arrays (heap_with [[1, 2], [0, 3], [- 1, 1]]) 0) \<and>
   numpy_discriminant 0 1 2 (heap_with [[1, 2], [0, 3], [- 1, 1]]) =
     Return 3 (heap_of (numpy_discriminant 0 1 2 (heap_with [[1, 2], [0, 3], [- 1, 1]]))) \<and>
   unrolled_discriminant 0 1 2 (heap_with [[1, 2], [0, 3], [- 1, 1]]) =
     numpy_discriminant 0 1 2 (heap_with [[1, 2], [0, 3], [- 1, 1]]) \<and>
   arrays (heap_of (numpy_discriminant 0 1 2 (heap_with [[1, 2], [0, 3], [- 1, 1]]))) 3 =
     [1, - 1 / 2] \<and>
   discriminant 1 0 (- 1) = Inr 1 \<and> discriminant 2 3 1 = Inr (- 1 / 2) \<and>
   arrays (heap_of (numpy_discriminant 0 1 2 (heap_with [[1, 2], [0, 3], [- 1, 1]]))) 0 = [1, 2]"
  using discriminant_variants_agree [of "heap_with [[1, 2], [0, 3], [- 1, 1]]" 1 0 2]
  by (simp add: heap_with_def Let_def numpy_discriminant_def broadcast2_def np_sqrt_def
      np_abs_def alloc_def discriminant_def)

text \<open>
  C9: whatever its outcome, a call of \<open>kick_numpy\<close> (notebook 03) creates no array and
  leaves every array other than \<open>dE\<close> as it was (so \<open>dt\<close>, \<open>voltage\<close>, \<open>omega\<close> and
  \<open>phi\<close>), and a call of \<open>drift_numpy\<close> leaves every array other than \<open>dt\<close> as it was
  (so \<open>dE\<close>). The scalar arguments are immutable Python floats, passed by value.
\<close>

theorem kick_drift_frame:
  "(\<forall>p. p \<noteq> dE \<longrightarrow>
      arrays (heap_of (kick_numpy dt dE voltage omega phi acc_kick h)) p = arrays h p) \<and>
   next_ref (heap_of (kick_numpy dt dE voltage omega phi acc_kick h)) = next_ref h \<and>
   (\<forall>p. p \<noteq> dt \<longrightarrow>
      arrays (heap_of (drift_numpy dt dE T0 length_ratio beta energy
                         alpha_zero alpha_one alpha_two h)) p = arrays h p) \<and>
   next_ref (heap_of (drift_numpy dt dE T0 length_ratio beta energy
                        alpha_zero alpha_one alpha_two h)) = next_ref h"
  using writes_only_kick_numpy [of dE h dt voltage omega phi acc_kick]
    writes_only_drift_numpy [of dt h dE T0 length_ratio beta energy alpha_zero alpha_one alpha_two]
  by (simp add: writes_only_def)

theorem kick_drift_frame_witness:
  "kick_numpy 0 1 2 3 4 (1 / 2) (heap_with [[0, pi / 2], [1, 1], [3], [1], [0]]) =
     Return () (heap_of (kick_numpy 0 1 2 3 4 (1 / 2) (heap_with [[0, pi / 2], [1, 1], [3], [1], [0]]))) \<and>
   arrays (heap_of (kick_numpy 0 1 2 3 4 (1 / 2) (heap_with [[0, pi / 2], [1, 1], [3], [1], [0]]))) 1 =
     [3 / 2, 9 / 2] \<and>
   arrays (heap_of (kick_numpy 0 1 2 3 4 (1 / 2) (heap_with [[0, pi / 2], [1, 1], [3], [1], [0]]))) 0 =
     [0, pi / 2] \<and>
   arrays (heap_of (kick_numpy 0 1 2 3 4 (1 / 2) (heap_with [[0, pi / 2], [1, 1], [3], [1], [0]]))) 2 =
     [3] \<and>
   drift_numpy 0 1 1 1 1 1 (1 / 2) 0 0 (heap_with [[0, pi / 2], [1, 1], [3], [1], [0]]) =
     Return () (heap_of (drift_numpy 0 1 1 1 1 1 (1 / 2) 0 0 (heap_with [[0, pi / 2], [1, 1], [3], [1], [0]]))) \<and>
   arrays (heap_of (drift_numpy 0 1 1 1 1 1 (1 / 2) 0 0 (heap_with [[0, pi / 2], [1, 1], [3], [1], [0]]))) 0 =
     [1 / 2, pi / 2 + 1 / 2] \<and>
   arrays (heap_of (drift_numpy 0 1 1 1 1 1 (1 / 2) 0 0 (heap_with [[0, pi / 2], [1, 1], [3], [1], [0]]))) 1 =
     [1, 1]"
  using kick_drift_frame [of 1 0 2 3 4 "1 / 2" "heap_with [[0, pi / 2], [1, 1], [3], [1], [0]]" 1 1 1 1 "1 / 2" 0 0]
  by (simp add: heap_with_def kick_numpy_def kick_numpy_step_def iadd_def iadd_scalar_def
      np_sin_def drift_numpy_def Let_def)

text \<open>
  C8: \<open>histo_numpy\<close> never modifies the \<open>profile\<close> array of its caller, whatever
  \<open>np.histogram\<close> computes; consequently, whenever \<open>loop_numpy\<close> returns, \<open>profile\<close>
  holds zeros only, whatever the particle coordinates are.
\<close>

theorem histo_numpy_never_writes_profile:
  assumes "profile < next_ref h"
  shows "arrays (heap_of (histo_numpy histogram dt profile cut_left cut_right h)) profile =
           arrays h profile \<and>
         (\<forall>h'. loop_numpy histogram dt dE profile cut_left cut_right voltage omega phi
                  acc_kick T0 length_ratio beta energy alpha_zero alpha_one alpha_two h = Return () h'
               \<longrightarrow> arrays h' profile = replicate (length (arrays h profile)) 0)"
  using assms by (auto simp: histo_numpy_frame dest: loop_numpy_profile)

theorem histo_numpy_never_writes_profile_witness:
  "2 < next_ref example_heap \<and>
   arrays (heap_of (histo_numpy np_histogram 0 2 0 1 example_heap)) 2 = [7, 7] \<and>
   example_run = Return () (heap_of example_run) \<and>
   arrays (heap_of example_run) 2 = [0, 0]"
proof -
  obtain h' where run: "example_run = Return () h'"
    using example_run_returns by blast
  then have run': "loop_numpy np_histogram 0 1 2 0 1 3 4 5 0 1 1 1 1 0 0 0 example_heap = Return () h'"
    by (simp add: example_run_def)
  have valid: "2 < next_ref example_heap" and len: "arrays example_heap 2 = [7, 7]"
    by (simp_all add: example_heap_def heap_with_def)
  have "arrays (heap_of (histo_numpy np_histogram 0 2 0 1 example_heap)) 2 = arrays example_heap 2"
    and "arrays h' 2 = replicate (length (arrays example_heap 2)) 0"
    using histo_numpy_never_writes_profile
        [of 2 example_heap np_histogram 0 0 1 1 3 4 5 0 1 1 1 1 0 0 0] valid run'
    by blast+
  then show ?thesis
    using valid by (simp add: len run)
qed

text \<open>
  C1 fails on the code: for one particle at \<open>0.5\<close>, one bin and the range \<open>(0, 1)\<close>,
  \<open>histo_unrolled\<close> leaves the caller's \<open>profile\<close> at \<open>[1]\<close>, whatever the rounding of
  the machine and whichever kind of scalar the cuts are, while \<open>histo_numpy\<close> leaves it at
  \<open>[0]\<close>, although \<open>np.histogram\<close> computed the count \<open>[1]\<close>.
\<close>

theorem histo_numpy_discards_counts:
  "histo_unrolled rnd 0 1 (PyFloat 0) (PyFloat 1) (heap_with [[1 / 2], [0]]) =
     Return () (heap_of (histo_unrolled rnd 0 1 (PyFloat 0) (PyFloat 1) (heap_with [[1 / 2], [0]]))) \<and>
   arrays (heap_of (histo_unrolled rnd 0 1 (PyFloat 0) (PyFloat 1) (heap_with [[1 / 2], [0]]))) 1 = [1] \<and>
   arrays (heap_of (histo_unrolled rnd 0 1 (Float64 0) (Float64 1) (heap_with [[1 / 2], [0]]))) 1 = [1] \<and>
   histo_numpy np_histogram 0 1 0 1 (heap_with [[1 / 2], [0]]) =
     Return () (heap_of (histo_numpy np_histogram 0 1 0 1 (heap_with [[1 / 2], [0]]))) \<and>
   arrays (heap_of (histo_numpy np_histogram 0 1 0 1 (heap_with [[1 / 2], [0]]))) 1 = [0] \<and>
   np_histogram [1 / 2] 1 (0, 1) = Inr ([1], [0, 1])"
  by (simp add: heap_with_def histo_unrolled_def histo_unrolled_step_def py_int_def setitem_def
      store_def histo_numpy_def np_histogram_def alloc_def Let_def fl_def exact64_def)

text \<open>
  The loop is ten rounds of kick, drift, reset and the call of \<open>histo_numpy\<close>, in this
  order; a round that raises ends the run. The reset sets every entry of \<open>profile\<close> to zero.
\<close>

lemma loop_numpy_rounds:
  "loop_numpy histogram dt dE profile cut_left cut_right voltage omega phi
       acc_kick T0 length_ratio beta energy alpha_zero alpha_one alpha_two h =
     ((\<lambda>r. bind r (\<lambda>_ h.
         bind (kick_numpy dt dE voltage omega phi acc_kick h) (\<lambda>_ h.
         bind (drift_numpy dt dE T0 length_ratio beta energy alpha_zero alpha_one alpha_two h) (\<lambda>_ h.
         bind (imul_scalar profile 0 h) (\<lambda>_ h.
         histo_numpy histogram dt profile cut_left cut_right h))))) ^^ 10) (Return () h) \<and>
   imul_scalar profile 0 h =
     Return () (store profile (replicate (length (arrays h profile)) 0) h)"
proof -
  have "loop_numpy_body histogram dt dE profile cut_left cut_right voltage omega phi
          acc_kick T0 length_ratio beta energy alpha_zero alpha_one alpha_two =
        (\<lambda>i h. bind (kick_numpy dt dE voltage omega phi acc_kick h) (\<lambda>_ h.
         bind (drift_numpy dt dE T0 length_ratio beta energy alpha_zero alpha_one alpha_two h) (\<lambda>_ h.
         bind (imul_scalar profile 0 h) (\<lambda>_ h.
         histo_numpy histogram dt profile cut_left cut_right h))))"
    by (intro ext) (simp add: loop_numpy_body_def)
  then have "loop_numpy histogram dt dE profile cut_left cut_right voltage omega phi
       acc_kick T0 length_ratio beta energy alpha_zero alpha_one alpha_two h =
     ((\<lambda>r. bind r (\<lambda>_ h.
         bind (kick_numpy dt dE voltage omega phi acc_kick h) (\<lambda>_ h.
         bind (drift_numpy dt dE T0 length_ratio beta energy alpha_zero alpha_one alpha_two h) (\<lambda>_ h.
         bind (imul_scalar profile 0 h) (\<lambda>_ h.
         histo_numpy histogram dt profile cut_left cut_right h))))) ^^ 10) (Return () h)"
    by (simp only: loop_numpy_def n_iter_def for_each_funpow)
  moreover have "imul_scalar profile 0 h =
     Return () (store profile (replicate (length (arrays h profile)) 0) h)"
    by (simp add: imul_scalar_def map_replicate_const)
  ultimately show ?thesis
    by (intro conjI)
qed

text \<open>
  C6 fails on the code: the histogram step of \<open>loop_numpy\<close> does not put the histogram of
  \<open>dt\<close> into \<open>profile\<close>. In the small run above the loop returns with the particle still
  at \<open>0.5\<close>; the bucket formula of the specification puts it into bin
  \<open>floor((0.5 - 0) * 2 / (1 - 0)) = 1\<close> of 2, and so does \<open>np.histogram\<close>, yet \<open>profile\<close>
  ends as \<open>[0, 0]\<close> and not as \<open>[0, 1]\<close>.
\<close>

theorem loop_numpy_profile_not_histogram:
  "example_run = Return () (heap_of example_run) \<and>
   arrays (heap_of example_run) 0 = [1 / 2] \<and>
   arrays (heap_of example_run) 2 = [0, 0] \<and>
   bin_counts (arrays (heap_of example_run) 0) (length (arrays (heap_of example_run) 2)) 0 1 = [0, 1] \<and>
   np_histogram (arrays (heap_of example_run) 0) (length (arrays (heap_of example_run) 2)) (0, 1) =
     Inr ([0, 1], [0, 1 / 2, 1]) \<and>
   arrays (heap_of example_run) 2 \<noteq>
     bin_counts (arrays (heap_of example_run) 0) (length (arrays (heap_of example_run) 2)) 0 1"
proof -
  obtain h' where run: "example_run = Return () h'" and dt: "arrays h' 0 = [1 / 2]"
    using example_run_returns by blast
  have valid: "2 < next_ref example_heap" and len: "arrays example_heap 2 = [7, 7]"
    by (simp_all add: example_heap_def heap_with_def)
  have "arrays h' 2 = replicate (length (arrays example_heap 2)) 0"
    using loop_numpy_profile [OF valid] run unfolding example_run_def by blast
  then have profile: "arrays h' 2 = [0, 0]"
    by (simp add: len)
  have "np_histogram [1 / 2] (Suc (Suc 0)) (0, 1) = Inr ([0, 1], [0, 1 / 2, 1])"
    by (simp add: np_histogram_def Let_def upt_rec)
  then show ?thesis
    by (simp add: run dt profile bin_counts_example)
qed

end
